theory Spec2Isabelle
  imports Complex_Main
begin

section \<open>Exceptions as values\<close>

text \<open>
  The notebooks are Python. Every \<^verbatim>\<open>raise\<close> of the source is a value of the type
  \<open>exn\<close>, and a function that may raise returns \<open>exn + 'a\<close>, with \<open>Inl\<close> for the
  exception. \<open>ExternalError\<close> stands for the exceptions of the libraries the scripts call
  (the HTTP client, the geocoder, the image decoder), named by a string.
\<close>

datatype exn =
    ValueError string
  | IndexError
  | TypeError
  | OverflowError
  | NotImplementedError
  | ExternalError string

definition raises :: "exn + 'a \<Rightarrow> bool" where
  "raises r = (case r of Inl _ \<Rightarrow> True | Inr _ \<Rightarrow> False)"

definition raises_ValueError :: "exn + 'a \<Rightarrow> bool" where
  "raises_ValueError r = (case r of Inl (ValueError _) \<Rightarrow> True | _ \<Rightarrow> False)"

text \<open>Sequencing of computations that may raise: the first exception ends the sequence.\<close>

definition exn_bind :: "exn + 'a \<Rightarrow> ('a \<Rightarrow> exn + 'b) \<Rightarrow> exn + 'b" where
  "exn_bind r f = (case r of Inl e \<Rightarrow> Inl e | Inr x \<Rightarrow> f x)"

section \<open>ch01dataanddesign/120dataclass: the validators of \<open>Person\<close>\<close>

record Person =
  birth_day :: int
  birth_month :: int
  birth_year :: int
  name :: string

text \<open>
  \<^verbatim>\<open>" " not in v\<close> on a Python string: no character of \<open>v\<close> is the space.
\<close>

definition has_space :: "string \<Rightarrow> bool" where
  "has_space v = (CHR '' '' \<in> set v)"

text \<open>
  The \<^verbatim>\<open>@field_validator("name")\<close> of the first \<open>Person\<close> class.
\<close>

definition validate_name :: "string \<Rightarrow> exn + string" where
  "validate_name v =
     (if \<not> has_space v
      then Inl (ValueError ''the name must have first and last names separated by <space>'')
      else Inr v)"

text \<open>
  The second \<open>Person\<close> class has a \<^verbatim>\<open>@model_validator(mode="after")\<close> on a
  \<^verbatim>\<open>@classmethod\<close> with the parameters \<^verbatim>\<open>(self, v)\<close> (the source names it
  \<^verbatim>\<open>validate_name\<close> again). Its body reads \<^verbatim>\<open>v["name"]\<close>, \<^verbatim>\<open>v["birth_month"]\<close> and so
  on. In the mode \<^verbatim>\<open>after\<close> pydantic calls the validator with the validated instance of
  the model as \<open>v\<close>, and an instance of \<^verbatim>\<open>BaseModel\<close> has no subscription, so the first
  \<^verbatim>\<open>v["name"]\<close> raises TypeError; on a dictionary with the four keys the subscriptions
  read the values.
\<close>

datatype model_value = Instance Person | Mapping Person

definition subscripts :: "model_value \<Rightarrow> exn + Person" where
  "subscripts v = (case v of Instance _ \<Rightarrow> Inl TypeError | Mapping d \<Rightarrow> Inr d)"

text \<open>
  The body of the validator. The checks are in the order of the source; Python's
  \<^verbatim>\<open>%\<close> on integers with a positive divisor is \<open>mod\<close>.
\<close>

definition validate_model :: "model_value \<Rightarrow> exn + model_value" where
  "validate_model v =
     exn_bind (subscripts v) (\<lambda>d.
       if \<not> has_space (name d)
       then Inl (ValueError ''the name must have first and last names separated by <space>'')
       else if birth_month d < 1 \<or> birth_month d > 12
       then Inl (ValueError ''birth month should be between 1 and 12'')
       else if birth_month d \<in> set [1, 3, 5, 7, 8, 10, 12] \<and> (birth_day d < 1 \<or> birth_day d > 31)
       then Inl (ValueError ''birth day should be between 1 and 31'')
       else if birth_month d \<in> set [4, 6, 9, 11] \<and> (birth_day d < 1 \<or> birth_day d > 31)
       then Inl (ValueError ''birth day should be between 1 and 30'')
       else if birth_month d = 2
       then (if birth_year d mod 400 = 0 \<or> birth_year d mod 4 = 0
             then (if birth_day d < 1 \<or> birth_day d > 29
                   then Inl (ValueError ''birth day should be between 1 and 29'')
                   else Inr v)
             else Inl (ValueError ''birth day should be between 1 and 28''))
       else Inr v)"

text \<open>
  \<^verbatim>\<open>Person.model_validate(data)\<close> on data whose fields have the types of the model:
  pydantic builds the instance and calls the validator with it.
\<close>

definition Person_model_validate :: "Person \<Rightarrow> exn + model_value" where
  "Person_model_validate data = validate_model (Instance data)"

text \<open>
  The calendar rule in the words of the specification: which days exist in a month of a
  year, with the Gregorian leap years.
\<close>

definition spec_leap_year :: "int \<Rightarrow> bool" where
  "spec_leap_year y = (y mod 4 = 0 \<and> (y mod 100 \<noteq> 0 \<or> y mod 400 = 0))"

definition spec_day_valid :: "int \<Rightarrow> int \<Rightarrow> int \<Rightarrow> bool" where
  "spec_day_valid d m y =
     (if m \<in> set [1, 3, 5, 7, 8, 10, 12] then 1 \<le> d \<and> d \<le> 31
      else if m \<in> set [4, 6, 9, 11] then 1 \<le> d \<and> d \<le> 30
      else if m = 2 then 1 \<le> d \<and> d \<le> (if spec_leap_year y then 29 else 28)
      else False)"

section \<open>ch01dataanddesign/115typehints: \<open>Calculator.idx\<close>\<close>

text \<open>
  \<^verbatim>\<open>number: TypeAlias = Union[int, float]\<close>. The floats are a type parameter: \<open>idx\<close>
  only tests whether \<open>a\<close> is one.
\<close>

datatype 'f number = IntNum int | FloatNum 'f

record 'f Calculator =
  a :: "'f number"

text \<open>
  \<^verbatim>\<open>sqnc[i]\<close> on a Python sequence (list, tuple, str): an index from \<open>-len\<close> to \<open>len - 1\<close>,
  the negative ones counted from the end, and IndexError outside.
\<close>

definition getitem :: "'a list \<Rightarrow> int \<Rightarrow> exn + 'a" where
  "getitem sqnc i =
     (if 0 \<le> i \<and> i < int (length sqnc) then Inr (sqnc ! nat i)
      else if i < 0 \<and> - int (length sqnc) \<le> i then Inr (sqnc ! nat (int (length sqnc) + i))
      else Inl IndexError)"

definition idx :: "'f Calculator \<Rightarrow> 'a list \<Rightarrow> exn + 'a" where
  "idx self sqnc =
     (case a self of
        FloatNum _ \<Rightarrow> Inl (ValueError ''a should be int'')
      | IntNum i \<Rightarrow>
          (case getitem sqnc i of
             Inl IndexError \<Rightarrow> Inl (ValueError ''sequence too small'')
           | Inl e \<Rightarrow> Inl e
           | Inr rslt \<Rightarrow> Inr rslt))"

section \<open>ch02testsandsmells/05Advanced: \<open>smart_square\<close>\<close>

datatype pytype = TInt | TFloat | TBool | TStr | TOther

text \<open>
  The argument: one of the four annotated types, or a value of any other type (the
  annotation is not enforced at run time).
\<close>

datatype 'f pyarg = AInt int | AFloat 'f | ABool bool | AStr string | AOther

datatype 'f pyresult = RInt int | RFloat 'f | RNone

fun type_of :: "'f pyarg \<Rightarrow> pytype" where
  "type_of (AInt _) = TInt"
| "type_of (AFloat _) = TFloat"
| "type_of (ABool _) = TBool"
| "type_of (AStr _) = TStr"
| "type_of AOther = TOther"

text \<open>\<^verbatim>\<open>isinstance(a, ts)\<close>: \<^verbatim>\<open>bool\<close> is a subclass of \<^verbatim>\<open>int\<close>.\<close>

definition isinstance :: "'f pyarg \<Rightarrow> pytype list \<Rightarrow> bool" where
  "isinstance x ts = (type_of x \<in> set ts \<or> (type_of x = TBool \<and> TInt \<in> set ts))"

text \<open>
  The float operations \<open>smart_square\<close> uses, as parameters: the product of two floats, and
  \<^verbatim>\<open>float(s)\<close> on a string, \<open>None\<close> when it raises ValueError, \<^verbatim>\<open>float(b)\<close> on an integer.
\<close>

record 'f float_conv =
  fmul :: "'f \<Rightarrow> 'f \<Rightarrow> 'f"
  float_of_str :: "string \<Rightarrow> 'f option"
  float_of_int :: "int \<Rightarrow> 'f"

text \<open>\<^verbatim>\<open>a * a\<close> in the first branch; \<^verbatim>\<open>True * True\<close> is the integer 1.\<close>

fun py_square :: "'f float_conv \<Rightarrow> 'f pyarg \<Rightarrow> 'f pyresult" where
  "py_square fc (AInt i) = RInt (i * i)"
| "py_square fc (ABool b) = RInt (of_bool b * of_bool b)"
| "py_square fc (AFloat x) = RFloat (fmul fc x x)"
| "py_square fc _ = RNone"

text \<open>
  \<^verbatim>\<open>float(a)\<close> in the second branch: ValueError on a string that is no number,
  TypeError on a value that is neither a string nor a number.
\<close>

fun py_float :: "'f float_conv \<Rightarrow> 'f pyarg \<Rightarrow> exn + 'f" where
  "py_float fc (AStr s) =
     (case float_of_str fc s of
        None \<Rightarrow> Inl (ValueError ''could not convert string to float'')
      | Some r \<Rightarrow> Inr r)"
| "py_float fc (ABool b) = Inr (float_of_int fc (of_bool b))"
| "py_float fc (AInt i) = Inr (float_of_int fc i)"
| "py_float fc (AFloat x) = Inr x"
| "py_float fc AOther = Inl TypeError"

text \<open>
  The message of the re-raised ValueError ends with \<^verbatim>\<open>type(a)\<close>; only a string makes
  \<^verbatim>\<open>float(a)\<close> raise ValueError, so it is the class of strings.
\<close>

definition got_str_message :: string where
  "got_str_message =
     ''a should be of type float/int or convertible to float; got <class ''
       @ [CHR 0x27] @ ''str'' @ [CHR 0x27] @ ''>''"

definition smart_square :: "'f float_conv \<Rightarrow> 'f pyarg \<Rightarrow> exn + 'f pyresult" where
  "smart_square fc x =
     (if isinstance x [TFloat, TInt] then Inr (py_square fc x)
      else if isinstance x [TStr, TBool]
      then (case py_float fc x of
              Inr r \<Rightarrow> Inr (RFloat (fmul fc r r))
            | Inl (ValueError _) \<Rightarrow> Inl (ValueError got_str_message)
            | Inl e \<Rightarrow> Inl e)
      else if \<not> isinstance x [TFloat, TInt, TBool, TStr] then Inl NotImplementedError
      else Inr RNone)"

section \<open>ch04performance/020numpy: the Mandelbrot functions\<close>

text \<open>
  The numbers are complex floating-point numbers. Their arithmetic is a parameter of the
  model: what is proved holds for every rounding behaviour of the operations.
\<close>

subsection \<open>\<open>mandel1\<close>\<close>

text \<open>
  The operations of \<open>mandel1\<close> on one complex number: the test \<^verbatim>\<open>abs(value) < k\<close>, the
  square \<^verbatim>\<open>value**2\<close> and the sum. On a Python \<^verbatim>\<open>complex\<close> the first two raise
  OverflowError when the result is too large for a float, so each operation returns
  \<open>exn + _\<close>.
\<close>

record 'c scalar_ops =
  s_abs_lt :: "'c \<Rightarrow> int \<Rightarrow> exn + bool"
  s_sq :: "'c \<Rightarrow> exn + 'c"
  s_add :: "'c \<Rightarrow> 'c \<Rightarrow> exn + 'c"

text \<open>
  \<^verbatim>\<open>
  def mandel1(position,limit=50):
      value = position
      while abs(value) < 2:
          limit -= 1
          value = value**2 + position
          if limit < 0:
              return 0
      return limit
  \<close>
  The loop is the recursion on \<open>value\<close> and \<open>limit\<close>.
\<close>

function mandel1_loop :: "'c scalar_ops \<Rightarrow> 'c \<Rightarrow> 'c \<Rightarrow> int \<Rightarrow> exn + int" where
  "mandel1_loop ops position val limit =
     (case s_abs_lt ops val 2 of
        Inl e \<Rightarrow> Inl e
      | Inr continue \<Rightarrow>
          (if continue
           then (case s_sq ops val of
                   Inl e \<Rightarrow> Inl e
                 | Inr sq \<Rightarrow>
                     (case s_add ops sq position of
                        Inl e \<Rightarrow> Inl e
                      | Inr val' \<Rightarrow>
                          (if limit - 1 < 0 then Inr 0
                           else mandel1_loop ops position val' (limit - 1))))
           else Inr limit))"
  by pat_completeness auto
termination
  by (relation "measure (\<lambda>(ops, position, val, limit). nat limit)") auto

declare mandel1_loop.simps [simp del]

definition mandel1 :: "'c scalar_ops \<Rightarrow> 'c \<Rightarrow> int \<Rightarrow> exn + int" where
  "mandel1 ops position limit = mandel1_loop ops position position limit"

subsection \<open>Arrays of complex numbers\<close>

text \<open>
  The operations of NumPy on the elements of a complex array, which raise nothing:
  the elements of \<^verbatim>\<open>np.zeros\<close>, the sum, the square, the product, the conjugate, the
  comparison \<^verbatim>\<open>x > k\<close> with an integer, the test \<^verbatim>\<open>abs(x) > k\<close>, and the element that
  an integer becomes when it is stored in the array.
\<close>

record 'c complex_ops =
  c_zero :: 'c
  c_add :: "'c \<Rightarrow> 'c \<Rightarrow> 'c"
  c_sq :: "'c \<Rightarrow> 'c"
  c_mul :: "'c \<Rightarrow> 'c \<Rightarrow> 'c"
  c_conj :: "'c \<Rightarrow> 'c"
  c_gt :: "'c \<Rightarrow> int \<Rightarrow> bool"
  c_abs_gt :: "'c \<Rightarrow> int \<Rightarrow> bool"
  c_of_int :: "int \<Rightarrow> 'c"


subsection \<open>\<open>mandel4\<close> and \<open>mandel5\<close>\<close>









subsection \<open>\<open>mandel7\<close>\<close>

text \<open>
  A two-dimensional array: its shape and its elements in row-major order. \<open>mandel7\<close> is
  modelled on two-dimensional \<open>position\<close> arrays, as the grid of the notebook is.
\<close>

record 'c ndarray2 =
  shape0 :: nat
  shape1 :: nat
  flat :: "'c list"

text \<open>\<^verbatim>\<open>arr[mask]\<close>: the elements where the Boolean mask is true, in order.\<close>

definition mask_select :: "bool list \<Rightarrow> 'a list \<Rightarrow> 'a list" where
  "mask_select msk xs = map snd (filter fst (zip msk xs))"

text \<open>\<^verbatim>\<open>np.mgrid[0:n0, 0:n1]\<close>: the row index and the column index of every cell.\<close>

definition mgrid :: "nat \<Rightarrow> nat \<Rightarrow> (nat \<times> nat) list" where
  "mgrid n0 n1 = concat (map (\<lambda>i. map (\<lambda>j. (i, j)) [0..<n1]) [0..<n0])"

text \<open>
  The local variables of the loop. \<open>val\<close> and \<open>positions\<close> are two-dimensional before the
  first iteration and one-dimensional after it, so their shape is kept beside the
  elements; \<open>indices\<close> has a leading axis of length 2, kept as pairs, and \<open>ishape\<close> is the
  shape of its other axes. The elements of \<open>diverged_at_count\<close> are the floats of the
  values of \<open>limit\<close>, kept as the integers they are equal to.
\<close>

record 'c m7state =
  val :: "'c list"
  vshape :: "nat list"
  positions :: "'c list"
  indices :: "(nat \<times> nat) list"
  ishape :: "nat list"
  diverged_at_count :: "int list"

text \<open>
  \<^verbatim>\<open>diverged_at_count[rows, cols] = limit\<close>, for index arrays: every pair must be inside
  the array.
\<close>

fun assign_at :: "nat \<Rightarrow> nat \<Rightarrow> (nat \<times> nat) list \<Rightarrow> int \<Rightarrow> int list \<Rightarrow> exn + int list" where
  "assign_at n0 n1 [] x d = Inr d"
| "assign_at n0 n1 ((i, j) # ps) x d =
     (if i < n0 \<and> j < n1 then assign_at n0 n1 ps x (d[i * n1 + j := x])
      else Inl IndexError)"

text \<open>
  One iteration, after \<^verbatim>\<open>limit -= 1\<close>. \<^verbatim>\<open>indices[:, diverging_now]\<close> raises IndexError
  when the shape of the mask is not the shape of the indexed axes.
\<close>

definition mandel7_step ::
  "'c complex_ops \<Rightarrow> nat \<times> nat \<Rightarrow> 'c m7state \<Rightarrow> int \<Rightarrow> exn + 'c m7state" where
  "mandel7_step ops pshape st limit =
     (let val1 = map2 (\<lambda>v p. c_add ops (c_sq ops v) p) (val st) (positions st);
          diverging_now = map (\<lambda>v. c_gt ops (c_mul ops v (c_conj ops v)) 4) val1
      in if ishape st \<noteq> vshape st then Inl IndexError
         else
           (let diverging_now_indices = mask_select diverging_now (indices st);
                carry_on = map Not diverging_now;
                val2 = mask_select carry_on val1;
                indices2 = mask_select carry_on (indices st);
                positions2 = mask_select carry_on (positions st)
            in case assign_at (fst pshape) (snd pshape) diverging_now_indices limit
                      (diverged_at_count st) of
                 Inl e \<Rightarrow> Inl e
               | Inr d \<Rightarrow>
                   Inr \<lparr>val = val2, vshape = [length val2], positions = positions2,
                        indices = indices2, ishape = [length val2],
                        diverged_at_count = d\<rparr>))"

function mandel7_loop ::
  "'c complex_ops \<Rightarrow> nat \<times> nat \<Rightarrow> 'c m7state \<Rightarrow> int \<Rightarrow> exn + int list" where
  "mandel7_loop ops pshape st limit =
     (if limit > 0
      then (case mandel7_step ops pshape st (limit - 1) of
              Inl e \<Rightarrow> Inl e
            | Inr st' \<Rightarrow> mandel7_loop ops pshape st' (limit - 1))
      else Inr (diverged_at_count st))"
  by pat_completeness auto
termination
  by (relation "measure (\<lambda>(ops, pshape, st, limit). nat limit)") auto

declare mandel7_loop.simps [simp del]

text \<open>
  \<^verbatim>\<open>mandel7(position, limit)\<close>. The source builds \<open>indices\<close> from the shape of \<open>values\<close>, a
  global variable of the notebook, which is the second argument here.
\<close>

definition mandel7 ::
  "'c complex_ops \<Rightarrow> nat \<times> nat \<Rightarrow> 'c ndarray2 \<Rightarrow> int \<Rightarrow> exn + int ndarray2" where
  "mandel7 ops values_shape position limit =
     (let pshape = (shape0 position, shape1 position);
          start = map (c_add ops (c_zero ops)) (flat position);
          st = \<lparr>val = start, vshape = [shape0 position, shape1 position],
                positions = start,
                indices = mgrid (fst values_shape) (snd values_shape),
                ishape = [fst values_shape, snd values_shape],
                diverged_at_count = replicate (shape0 position * shape1 position) 0\<rparr>
      in case mandel7_loop ops pshape st limit of
           Inl e \<Rightarrow> Inl e
         | Inr d \<Rightarrow> Inr \<lparr>shape0 = shape0 position, shape1 = shape1 position, flat = d\<rparr>)"

section \<open>ch01dataanddesign/greengraph: \<open>Map\<close>\<close>

text \<open>
  The floating-point operations of \<open>deg2num\<close> and of \<open>green\<close>, as parameters. In Python
  \<^verbatim>\<open>2.0 ** zoom\<close> raises OverflowError on a large \<open>zoom\<close>, \<^verbatim>\<open>math.tan\<close> and
  \<^verbatim>\<open>math.asinh\<close> raise on some arguments, and \<^verbatim>\<open>int(x)\<close> raises on an infinity or
  a NaN, so these return \<open>exn + _\<close>. \<open>f_lit\<close> is the float a literal of the source
  denotes. \<open>scale t p\<close> is \<^verbatim>\<open>t * p\<close> for a float \<open>t\<close> and an element \<open>p\<close> of the pixel
  array, and \<open>exceeds p x\<close> is \<^verbatim>\<open>p > x\<close>.
\<close>

record ('f, 'p) float_ops =
  radians :: "'f \<Rightarrow> 'f"
  pow2 :: "int \<Rightarrow> exn + 'f"
  f_tan :: "'f \<Rightarrow> exn + 'f"
  f_asinh :: "'f \<Rightarrow> exn + 'f"
  f_pi :: 'f
  f_lit :: "string \<Rightarrow> 'f"
  f_add :: "'f \<Rightarrow> 'f \<Rightarrow> 'f"
  f_sub :: "'f \<Rightarrow> 'f \<Rightarrow> 'f"
  f_mul :: "'f \<Rightarrow> 'f \<Rightarrow> 'f"
  f_div :: "'f \<Rightarrow> 'f \<Rightarrow> 'f"
  to_int :: "'f \<Rightarrow> exn + int"
  scale :: "'f \<Rightarrow> 'p \<Rightarrow> 'f"
  exceeds :: "'p \<Rightarrow> 'f \<Rightarrow> bool"

text \<open>
  \<open>deg2num\<close> does not read \<open>self\<close>. The statements run in the order of the source.
\<close>

definition deg2num :: "('f, 'p) float_ops \<Rightarrow> 'f \<Rightarrow> 'f \<Rightarrow> int \<Rightarrow> exn + int \<times> int" where
  "deg2num fo latitude longitude zoom =
     (let lat_rad = radians fo latitude in
      exn_bind (pow2 fo zoom) (\<lambda>n.
      exn_bind (to_int fo (f_mul fo (f_div fo (f_add fo longitude (f_lit fo ''180.0''))
                                              (f_lit fo ''360.0'')) n)) (\<lambda>x_tiles_coord.
      exn_bind (f_tan fo lat_rad) (\<lambda>t.
      exn_bind (f_asinh fo t) (\<lambda>s.
      exn_bind (to_int fo (f_mul fo (f_div fo (f_sub fo (f_lit fo ''1.0'') (f_div fo s (f_pi fo)))
                                              (f_lit fo ''2.0'')) n)) (\<lambda>y_tiles_coord.
      Inr (x_tiles_coord, y_tiles_coord)))))))"

text \<open>
  The decoded image: two-dimensional (greyscale) or three-dimensional, with the length of
  the last axis (the channels) and the rows of pixels, a pixel being the list of its
  channel values.
\<close>

datatype 'p ndarray = Array2D "'p list list" | Array3D nat "'p list list list"

record ('b, 'p) Map =
  image_data :: 'b
  pixels :: "'p ndarray"

text \<open>The query of a request: the \<^verbatim>\<open>params\<close> dictionary, in insertion order.\<close>

datatype param = PInt int | PStr string

record request =
  url :: string
  params :: "(string \<times> param) list"

text \<open>
  What the program does to the outside: the requests sent to the tile server and the
  places sent to the geocoder, in order.
\<close>

record world =
  http_log :: "request list"
  geocode_log :: "string list"

text \<open>
  The outside, as parameters: the body the tile server answers to a request (it may depend
  on the requests before it), or the exception of \<^verbatim>\<open>requests.get\<close>; the array
  \<^verbatim>\<open>iio.imread\<close> decodes from bytes, or its exception; the answer of the geocoder, which
  is \<^verbatim>\<open>None\<close> or a list of locations (address, (latitude, longitude)), or its exception;
  and \<^verbatim>\<open>np.linspace\<close>.
\<close>

record ('f, 'b, 'p) env =
  fops :: "('f, 'p) float_ops"
  http_get :: "request list \<Rightarrow> request \<Rightarrow> exn + 'b"
  imread :: "'b \<Rightarrow> exn + 'p ndarray"
  geocode :: "string list \<Rightarrow> string \<Rightarrow> exn + (string \<times> 'f \<times> 'f) list option"
  linspace :: "'f \<Rightarrow> 'f \<Rightarrow> int \<Rightarrow> exn + 'f list"

definition base :: string where
  "base = ''https://mt0.google.com/vt?''"

definition tile_params :: "int \<Rightarrow> int \<Rightarrow> int \<Rightarrow> bool \<Rightarrow> (string \<times> param) list" where
  "tile_params x_coord y_coord zoom satellite =
     [(''x'', PInt x_coord), (''y'', PInt y_coord), (''z'', PInt zoom)]
       @ (if satellite then [(''lyrs'', PStr ''s'')] else [])"

text \<open>
  \<^verbatim>\<open>Map.__init__(latitude, longitude, satellite, zoom)\<close>: the new object or the
  exception, and the world after it.
\<close>

definition Map_init ::
  "('f, 'b, 'p) env \<Rightarrow> 'f \<Rightarrow> 'f \<Rightarrow> bool \<Rightarrow> int \<Rightarrow> world \<Rightarrow> (exn + ('b, 'p) Map) \<times> world" where
  "Map_init ev latitude longitude satellite zoom w =
     (case deg2num (fops ev) latitude longitude zoom of
        Inl e \<Rightarrow> (Inl e, w)
      | Inr (x_coord, y_coord) \<Rightarrow>
          (let req = \<lparr>url = base, params = tile_params x_coord y_coord zoom satellite\<rparr>;
               w' = w\<lparr>http_log := http_log w @ [req]\<rparr>
           in case http_get ev (http_log w) req of
                Inl e \<Rightarrow> (Inl e, w')
              | Inr content \<Rightarrow>
                  (case imread ev content of
                     Inl e \<Rightarrow> (Inl e, w')
                   | Inr px \<Rightarrow> (Inr \<lparr>image_data = content, pixels = px\<rparr>, w'))))"

text \<open>\<^verbatim>\<open>pixels[:, :, k]\<close>: IndexError on a two-dimensional array or a missing channel.\<close>

definition channel :: "nat \<Rightarrow> 'p ndarray \<Rightarrow> exn + 'p list list" where
  "channel k px =
     (case px of
        Array2D _ \<Rightarrow> Inl IndexError
      | Array3D c rows \<Rightarrow>
          (if k < c then Inr (map (map (\<lambda>p. p ! k)) rows) else Inl IndexError))"

text \<open>
  The methods take \<open>self\<close> and return their result with \<open>self\<close> after the call.
\<close>

definition green ::
  "('f, 'p) float_ops \<Rightarrow> ('b, 'p) Map \<Rightarrow> 'f \<Rightarrow> (exn + bool list list) \<times> ('b, 'p) Map" where
  "green fo self threshold =
     (exn_bind (channel 1 (pixels self)) (\<lambda>g1.
      exn_bind (channel 0 (pixels self)) (\<lambda>r.
      let greener_than_red = map2 (map2 (\<lambda>g x. exceeds fo g (scale fo threshold x))) g1 r in
      exn_bind (channel 1 (pixels self)) (\<lambda>g2.
      exn_bind (channel 2 (pixels self)) (\<lambda>b.
      let greener_than_blue = map2 (map2 (\<lambda>g x. exceeds fo g (scale fo threshold x))) g2 b in
      Inr (map2 (map2 (\<and>)) greener_than_red greener_than_blue))))), self)"

definition count_green ::
  "('f, 'p) float_ops \<Rightarrow> ('b, 'p) Map \<Rightarrow> 'f \<Rightarrow> (exn + int) \<times> ('b, 'p) Map" where
  "count_green fo self threshold =
     (case green fo self threshold of
        (Inl e, self') \<Rightarrow> (Inl e, self')
      | (Inr g, self') \<Rightarrow> (Inr (int (length (filter id (concat g)))), self'))"

text \<open>\<open>deg2num\<close> as a method: the result of the function above, and \<open>self\<close>.\<close>

definition Map_deg2num ::
  "('f, 'p) float_ops \<Rightarrow> ('b, 'p) Map \<Rightarrow> 'f \<Rightarrow> 'f \<Rightarrow> int \<Rightarrow> (exn + int \<times> int) \<times> ('b, 'p) Map" where
  "Map_deg2num fo self latitude longitude zoom = (deg2num fo latitude longitude zoom, self)"

section \<open>ch01dataanddesign/greengraph: \<open>Greengraph\<close>\<close>

text \<open>
  The fields \<open>steps\<close> and \<open>green_at_each_location\<close> do not exist until \<open>green_between\<close>
  sets them; the geocoder of the object is the one of the environment.
\<close>

record Greengraph =
  start :: string
  end_place :: string
  steps :: "int option"
  green_at_each_location :: "int list option"







section \<open>Concrete instances of the parameters\<close>

text \<open>
  Instances on which the model is evaluated. Complex numbers with integer parts are
  computed on exactly by floating-point arithmetic as long as they stay small, so the
  Gaussian integers with exact arithmetic give the values of the program on such inputs.
  \<^verbatim>\<open>x > 4\<close> on a complex array compares the real parts first, then the imaginary parts.
\<close>

definition gauss_ops :: "(int \<times> int) complex_ops" where
  "gauss_ops =
     \<lparr>c_zero = (0, 0),
      c_add = (\<lambda>(x, y) (u, v). (x + u, y + v)),
      c_sq = (\<lambda>(x, y). (x * x - y * y, 2 * x * y)),
      c_mul = (\<lambda>(x, y) (u, v). (x * u - y * v, x * v + y * u)),
      c_conj = (\<lambda>(x, y). (x, - y)),
      c_gt = (\<lambda>(x, y) k. x > k \<or> (x = k \<and> y > 0)),
      c_abs_gt = (\<lambda>(x, y) k. k < 0 \<or> x * x + y * y > k * k),
      c_of_int = (\<lambda>k. (k, 0))\<rparr>"

definition gauss_scalar_ops :: "(int \<times> int) scalar_ops" where
  "gauss_scalar_ops =
     \<lparr>s_abs_lt = (\<lambda>(x, y) k. Inr (0 < k \<and> x * x + y * y < k * k)),
      s_sq = (\<lambda>(x, y). Inr (x * x - y * y, 2 * x * y)),
      s_add = (\<lambda>(x, y) (u, v). Inr (x + u, y + v))\<rparr>"
















text \<open>
  A rational stand-in for the floats of \<open>Map\<close>: the four arithmetic operations are exact,
  \<open>tan\<close> and \<open>asinh\<close> are replaced by the identity, their value at 0 (the evaluations
  below use latitude 0 only), and a pixel channel is a natural number.
\<close>

definition rat_lit :: "string \<Rightarrow> rat" where
  "rat_lit s =
     (if s = ''180.0'' then 180 else if s = ''360.0'' then 360 else if s = ''1.0'' then 1
      else if s = ''2.0'' then 2 else if s = ''1.1'' then 11 / 10 else 0)"

definition rat_ops :: "(rat, nat) float_ops" where
  "rat_ops =
     \<lparr>radians = (\<lambda>x. x * (355 / 113) / 180),
      pow2 = (\<lambda>z. if z > 1023 then Inl OverflowError
                   else Inr (if z \<ge> 0 then 2 ^ nat z else 1 / 2 ^ nat (- z))),
      f_tan = Inr,
      f_asinh = Inr,
      f_pi = 355 / 113,
      f_lit = rat_lit,
      f_add = (+), f_sub = (-), f_mul = (*), f_div = (/),
      to_int = (\<lambda>x. Inr (if x \<ge> 0 then \<lfloor>x\<rfloor> else \<lceil>x\<rceil>)),
      scale = (\<lambda>t p. t * of_nat p),
      exceeds = (\<lambda>p x. of_nat p > x)\<rparr>"

text \<open>
  An outside whose tile server answers every request with the same four bytes, decoded
  as one green pixel, and whose geocoder knows one place and is unavailable for the rest.
\<close>

definition demo_env :: "(rat, nat list, nat) env" where
  "demo_env =
     \<lparr>fops = rat_ops,
      http_get = (\<lambda>earlier req. Inr [137, 80, 78, 71]),
      imread = (\<lambda>content. if content = [137, 80, 78, 71] then Inr (Array3D 3 [[[10, 200, 10]]])
                           else Inl (ExternalError ''OSError'')),
      geocode = (\<lambda>earlier place. if place = ''Equator'' then Inr (Some [(''Equator'', 0, 0)])
                                   else Inl (ExternalError ''GeocoderUnavailable'')),
      linspace = (\<lambda>lo hi n. if n < 0 then Inl (ValueError ''Number of samples must be non-negative'')
                             else Inr (map (\<lambda>k. if n = 1 then lo
                                                  else lo + (hi - lo) * of_nat k / of_int (n - 1))
                                           [0..<nat n]))\<rparr>"

text \<open>The same outside with a tile server that cannot be reached.\<close>

definition offline_env :: "(rat, nat list, nat) env" where
  "offline_env = demo_env\<lparr>http_get := (\<lambda>earlier req. Inl (ExternalError ''ConnectionError''))\<rparr>"

text \<open>The same outside with a tile server whose answer is no image.\<close>

definition garbled_env :: "(rat, nat list, nat) env" where
  "garbled_env = demo_env\<lparr>http_get := (\<lambda>earlier req. Inr [60, 104, 116, 109, 108, 62])\<rparr>"

definition world0 :: world where
  "world0 = \<lparr>http_log = [], geocode_log = []\<rparr>"

text \<open>A conversion of strings to floats that accepts the strings of decimal digits.\<close>

definition digits_conv :: "rat float_conv" where
  "digits_conv =
     \<lparr>fmul = (*),
      float_of_str =
        (\<lambda>s. if s \<noteq> [] \<and> list_all (\<lambda>c. (48::nat) \<le> of_char c \<and> of_char c \<le> (57::nat)) s
              then Some (of_nat (foldl (\<lambda>n c. 10 * n + (of_char c - (48::nat))) (0::nat) s))
              else None),
      float_of_int = of_int\<rparr>"

section \<open>The validators of \<open>Person\<close>: results\<close>

text \<open>
  Claim C5. For every string \<open>v\<close>, the field validator of \<open>name\<close> returns \<open>v\<close> unchanged
  when \<open>v\<close> contains a space, and raises ValueError with the message
  \<^verbatim>\<open>the name must have first and last names separated by <space>\<close> when it contains none.
\<close>

theorem validate_name_space:
  "(has_space v \<longrightarrow> validate_name v = Inr v) \<and>
   (\<not> has_space v \<longrightarrow>
      validate_name v =
        Inl (ValueError ''the name must have first and last names separated by <space>''))"
  by (simp add: validate_name_def)

theorem validate_name_space_witness:
  "has_space ''John Doe'' \<and> validate_name ''John Doe'' = Inr ''John Doe'' \<and>
   \<not> has_space ''JohnDoe'' \<and>
   validate_name ''JohnDoe'' =
     Inl (ValueError ''the name must have first and last names separated by <space>'')"
  using validate_name_space [of "''John Doe''"] validate_name_space [of "''JohnDoe''"]
  by (simp add: has_space_def)

text \<open>
  What pydantic does with the model validator: whatever the data, the validator raises
  TypeError at its first subscription.
\<close>

lemma Person_model_validate_TypeError: "Person_model_validate data = Inl TypeError"
  by (simp add: Person_model_validate_def validate_model_def subscripts_def exn_bind_def)

text \<open>
  Claim C1 says that the model validator accepts an input exactly when the birth day
  exists in the birth month of the birth year. 1 January 1972 is a day of the calendar,
  the name \<^verbatim>\<open>John Doe\<close> has its space, and the validation of this input raises TypeError.
\<close>

theorem validate_model_raises_TypeError:
  "spec_day_valid 1 1 1972 \<and>
   Person_model_validate
       \<lparr>birth_day = 1, birth_month = 1, birth_year = 1972, name = ''John Doe''\<rparr>
     = Inl TypeError"
  by (simp add: spec_day_valid_def Person_model_validate_def validate_model_def subscripts_def
      exn_bind_def)

text \<open>
  The body of the validator on a dictionary. Three of its tests disagree with its own
  messages: the test of the months of 30 days compares with 31 under the message
  \<^verbatim>\<open>between 1 and 30\<close>; the branch of the message \<^verbatim>\<open>between 1 and 28\<close> raises
  without a test of the day; and the test of the year is \<^verbatim>\<open>% 400 == 0 or % 4 == 0\<close>,
  which 1900 passes.
\<close>

lemma validate_model_thirty_day_month:
  "validate_model
       (Mapping \<lparr>birth_day = 31, birth_month = 4, birth_year = 2001, name = ''John Doe''\<rparr>)
     = Inr (Mapping \<lparr>birth_day = 31, birth_month = 4, birth_year = 2001, name = ''John Doe''\<rparr>)"
  by (simp add: validate_model_def subscripts_def exn_bind_def has_space_def)

lemma validate_model_february_common_year:
  "validate_model
       (Mapping \<lparr>birth_day = 10, birth_month = 2, birth_year = 2001, name = ''John Doe''\<rparr>)
     = Inl (ValueError ''birth day should be between 1 and 28'')"
  by (simp add: validate_model_def subscripts_def exn_bind_def has_space_def)

lemma validate_model_february_1900:
  "\<not> spec_leap_year 1900 \<and>
   validate_model
       (Mapping \<lparr>birth_day = 29, birth_month = 2, birth_year = 1900, name = ''John Doe''\<rparr>)
     = Inr (Mapping \<lparr>birth_day = 29, birth_month = 2, birth_year = 1900, name = ''John Doe''\<rparr>)"
  by (simp add: validate_model_def subscripts_def exn_bind_def has_space_def spec_leap_year_def)

section \<open>\<open>Calculator.idx\<close>: results\<close>

text \<open>
  Claim C2. For every sequence \<open>sqnc\<close>: \<open>idx\<close> raises ValueError \<^verbatim>\<open>a should be int\<close> when
  \<open>a\<close> is a float; when \<open>a\<close> is the integer \<open>i\<close> it raises ValueError
  \<^verbatim>\<open>sequence too small\<close> whenever \<^verbatim>\<open>sqnc[i]\<close> raises IndexError and returns \<^verbatim>\<open>sqnc[i]\<close>
  otherwise (these are the only two outcomes of \<^verbatim>\<open>sqnc[i]\<close>); and \<open>idx\<close> never raises
  IndexError.
\<close>

theorem idx_raises_ValueError:
  fixes self :: "'f Calculator" and f :: 'f and sqnc :: "'a list"
  shows
  "idx \<lparr>a = FloatNum f\<rparr> sqnc = Inl (ValueError ''a should be int'') \<and>
   (getitem sqnc i = Inl IndexError \<longrightarrow>
      idx \<lparr>a = IntNum i :: 'f number\<rparr> sqnc = Inl (ValueError ''sequence too small'')) \<and>
   (getitem sqnc i = Inr x \<longrightarrow> idx \<lparr>a = IntNum i :: 'f number\<rparr> sqnc = Inr x) \<and>
   (getitem sqnc i = Inl IndexError \<or> (\<exists>x. getitem sqnc i = Inr x)) \<and>
   idx self sqnc \<noteq> Inl IndexError"
  by (auto simp add: idx_def getitem_def split: number.splits sum.splits exn.splits)

theorem idx_raises_ValueError_witness:
  "getitem [10, 20, 30 :: int] 3 = Inl IndexError \<and>
   idx \<lparr>a = IntNum 3 :: unit number\<rparr> [10, 20, 30 :: int]
     = Inl (ValueError ''sequence too small'') \<and>
   getitem [10, 20, 30 :: int] (- 1) = Inr 30 \<and>
   idx \<lparr>a = IntNum (- 1) :: unit number\<rparr> [10, 20, 30 :: int] = Inr 30"
  using idx_raises_ValueError [of "()" "[10, 20, 30 :: int]" 3 30 "\<lparr>a = IntNum 3\<rparr>"]
    idx_raises_ValueError [of "()" "[10, 20, 30 :: int]" "- 1" 30 "\<lparr>a = IntNum 3\<rparr>"]
  by (simp add: getitem_def)

section \<open>\<open>smart_square\<close>: results\<close>

text \<open>
  Claim C10. For every argument of one of the annotated types \<^verbatim>\<open>int\<close>, \<^verbatim>\<open>float\<close>,
  \<^verbatim>\<open>bool\<close> and \<^verbatim>\<open>str\<close>, \<open>smart_square\<close> never raises NotImplementedError; it raises
  exactly when the argument is a string that \<^verbatim>\<open>float\<close> does not convert, and then
  raises ValueError; otherwise it returns a number.
\<close>

theorem smart_square_never_NotImplementedError:
  assumes "type_of x \<in> {TInt, TFloat, TBool, TStr}"
  shows "smart_square fc x \<noteq> Inl NotImplementedError \<and>
         (raises (smart_square fc x) = (\<exists>s. x = AStr s \<and> float_of_str fc s = None)) \<and>
         (raises (smart_square fc x) \<longrightarrow> smart_square fc x = Inl (ValueError got_str_message)) \<and>
         (\<not> raises (smart_square fc x) \<longrightarrow> (\<exists>r. smart_square fc x = Inr r \<and> r \<noteq> RNone))"
  using assms
  by (cases x) (auto simp add: smart_square_def isinstance_def raises_def split: option.splits)

theorem smart_square_never_NotImplementedError_witness:
  "type_of (AStr ''false'' :: rat pyarg) \<in> {TInt, TFloat, TBool, TStr} \<and>
   smart_square digits_conv (AStr ''false'') = Inl (ValueError got_str_message) \<and>
   type_of (AStr ''2'' :: rat pyarg) \<in> {TInt, TFloat, TBool, TStr} \<and>
   smart_square digits_conv (AStr ''2'') = Inr (RFloat 4) \<and>
   smart_square digits_conv (ABool True) = Inr (RInt 1)"
  using smart_square_never_NotImplementedError [of "AStr ''false''" digits_conv]
    smart_square_never_NotImplementedError [of "AStr ''2''" digits_conv]
    smart_square_never_NotImplementedError [of "ABool True" digits_conv]
  by (simp add: smart_square_def isinstance_def digits_conv_def raises_def)

section \<open>The Mandelbrot functions: results\<close>

subsection \<open>\<open>mandel1\<close>\<close>

lemma mandel1_loop_bounds:
  "0 \<le> limit \<Longrightarrow> mandel1_loop ops position v limit = Inr r \<Longrightarrow> 0 \<le> r \<and> r \<le> limit"
proof (induction ops position v limit rule: mandel1_loop.induct)
  case (1 ops position v limit)
  from "1.prems"(2) show ?case
  proof (subst (asm) mandel1_loop.simps, goal_cases)
    case run: 1
    show ?case
    proof (cases "s_abs_lt ops v 2")
      case (Inl e)
      with run show ?thesis by simp
    next
      case test: (Inr continue)
      show ?thesis
      proof (cases continue)
        case False
        with run test "1.prems"(1) show ?thesis by simp
      next
        case True
        show ?thesis
        proof (cases "s_sq ops v")
          case (Inl e)
          with run test True show ?thesis by simp
        next
          case sq: (Inr sqv)
          show ?thesis
          proof (cases "s_add ops sqv position")
            case (Inl e)
            with run test True sq show ?thesis by simp
          next
            case add: (Inr v')
            show ?thesis
            proof (cases "limit - 1 < 0")
              case True
              with run test \<open>continue\<close> sq add "1.prems"(1) show ?thesis by simp
            next
              case False
              with run test \<open>continue\<close> sq add
              have "mandel1_loop ops position v' (limit - 1) = Inr r" by simp
              moreover from False have "0 \<le> limit - 1" by simp
              ultimately have "0 \<le> r \<and> r \<le> limit - 1"
                using "1.IH" [OF test \<open>continue\<close> sq add False] by simp
              then show ?thesis by simp
            qed
          qed
        qed
      qed
    qed
  qed
qed

lemma not_raises_Inr: "\<not> raises r \<Longrightarrow> \<exists>x. r = Inr x"
  by (cases r) (simp_all add: raises_def)

lemma mandel1_loop_returns:
  assumes "\<forall>u. \<not> raises (s_abs_lt ops u 2)" and "\<forall>u. \<not> raises (s_sq ops u)"
    and "\<forall>u u'. \<not> raises (s_add ops u u')"
  shows "\<exists>r. mandel1_loop ops position v limit = Inr r"
  using assms
proof (induction ops position v limit rule: mandel1_loop.induct)
  case (1 ops position v limit)
  from "1.prems"(1) obtain continue where test: "s_abs_lt ops v 2 = Inr continue"
    using not_raises_Inr by blast
  from "1.prems"(2) obtain sqv where sq: "s_sq ops v = Inr sqv"
    using not_raises_Inr by blast
  from "1.prems"(3) obtain v' where add: "s_add ops sqv position = Inr v'"
    using not_raises_Inr by blast
  show ?case
  proof (cases "continue \<and> \<not> limit - 1 < 0")
    case True
    then have c: continue and l: "\<not> limit - 1 < 0" by simp_all
    have "\<exists>r. mandel1_loop ops position v' (limit - 1) = Inr r"
      by (rule "1.IH" [OF test c sq add l "1.prems"])
    then obtain r where "mandel1_loop ops position v' (limit - 1) = Inr r" ..
    with c l test sq add have "mandel1_loop ops position v limit = Inr r"
      by (subst mandel1_loop.simps) simp
    then show ?thesis ..
  next
    case False
    show ?thesis
    proof (cases continue)
      case True
      with False have "limit - 1 < 0" by simp
      with True test sq add have "mandel1_loop ops position v limit = Inr 0"
        by (subst mandel1_loop.simps) simp
      then show ?thesis ..
    next
      case False
      with test have "mandel1_loop ops position v limit = Inr limit"
        by (subst mandel1_loop.simps) simp
      then show ?thesis ..
    qed
  qed
qed

text \<open>
  Claim C9. For every position and every \<open>limit \<ge> 0\<close>, \<open>mandel1\<close> terminates, and a value
  that it returns lies between 0 and \<open>limit\<close>; it returns one whenever the operations on
  complex numbers raise nothing. Termination is the totality of \<open>mandel1_loop\<close>, proved
  above with the measure \<open>limit\<close>, which every iteration that continues decreases and
  keeps non-negative; the bounds are proved by induction along the loop.
\<close>

theorem mandel1_result_in_range:
  assumes "0 \<le> limit"
  shows "(\<forall>r. mandel1 ops position limit = Inr r \<longrightarrow> 0 \<le> r \<and> r \<le> limit) \<and>
         ((\<forall>u. \<not> raises (s_abs_lt ops u 2)) \<and> (\<forall>u. \<not> raises (s_sq ops u)) \<and>
          (\<forall>u u'. \<not> raises (s_add ops u u')) \<longrightarrow>
            (\<exists>r. mandel1 ops position limit = Inr r \<and> 0 \<le> r \<and> r \<le> limit))"
proof -
  have bounds: "0 \<le> r \<and> r \<le> limit" if "mandel1_loop ops position position limit = Inr r" for r
    using that by (rule mandel1_loop_bounds [OF assms])
  have "\<exists>r. mandel1 ops position limit = Inr r \<and> 0 \<le> r \<and> r \<le> limit"
    if total: "(\<forall>u. \<not> raises (s_abs_lt ops u 2)) \<and> (\<forall>u. \<not> raises (s_sq ops u)) \<and>
          (\<forall>u u'. \<not> raises (s_add ops u u'))"
  proof -
    from total have "\<exists>r. mandel1_loop ops position position limit = Inr r"
      by (intro mandel1_loop_returns) simp_all
    then obtain r where r: "mandel1_loop ops position position limit = Inr r" ..
    with bounds [OF r] show ?thesis
      unfolding mandel1_def by blast
  qed
  with bounds show ?thesis
    unfolding mandel1_def by blast
qed

theorem mandel1_result_in_range_witness:
  "(0::int) \<le> 3 \<and> mandel1 gauss_scalar_ops (0, 0) 3 = Inr 0 \<and>
   mandel1 gauss_scalar_ops (1, 0) 3 = Inr 2 \<and> mandel1 gauss_scalar_ops (2, 0) 3 = Inr 3"
proof -
  have "(0::int) \<le> 3" by simp
  note range = mandel1_result_in_range [OF this, of gauss_scalar_ops "(0, 0)"]
  have "mandel1 gauss_scalar_ops (0, 0) 3 = Inr 0"
    by (simp add: mandel1_def gauss_scalar_ops_def mandel1_loop.simps)
  moreover have "mandel1 gauss_scalar_ops (1, 0) 3 = Inr 2"
    by (simp add: mandel1_def gauss_scalar_ops_def mandel1_loop.simps)
  moreover have "mandel1 gauss_scalar_ops (2, 0) 3 = Inr 3"
    by (simp add: mandel1_def gauss_scalar_ops_def mandel1_loop.simps)
  ultimately show ?thesis using range by simp
qed

subsection \<open>\<open>mandel4\<close> and \<open>mandel5\<close>\<close>


























subsection \<open>\<open>mandel7\<close>\<close>

lemma mandel7_loop_mismatch:
  "0 < limit \<Longrightarrow> ishape st \<noteq> vshape st \<Longrightarrow> mandel7_loop ops pshape st limit = Inl IndexError"
  by (subst mandel7_loop.simps) (simp add: mandel7_step_def Let_def)

text \<open>
  Whatever the elements are, \<open>mandel7\<close> raises as soon as the global array \<open>values\<close> has
  another shape than the argument \<open>position\<close> and the loop runs once.
\<close>

lemma mandel7_shape_mismatch:
  "0 < limit \<Longrightarrow> values_shape \<noteq> (shape0 position, shape1 position) \<Longrightarrow>
     mandel7 ops values_shape position limit = Inl IndexError"
  by (cases values_shape) (auto simp add: mandel7_def Let_def mandel7_loop_mismatch)

text \<open>
  Claim C4 says that the Mandelbrot functions return values that depend on their
  arguments only. \<open>mandel7\<close> also reads the global \<open>values\<close>: on the array \<^verbatim>\<open>[[3+0j]]\<close>
  with \<open>limit = 2\<close> it returns \<^verbatim>\<open>[[1.]]\<close> when \<open>values\<close> has the shape (1, 1) and raises
  IndexError when \<open>values\<close> has the shape (2, 2).
\<close>

theorem mandel7_reads_global_values:
  "mandel7 gauss_ops (1, 1) \<lparr>shape0 = 1, shape1 = 1, flat = [(3, 0)]\<rparr> 2
     = Inr \<lparr>shape0 = 1, shape1 = 1, flat = [1]\<rparr> \<and>
   mandel7 gauss_ops (2, 2) \<lparr>shape0 = 1, shape1 = 1, flat = [(3, 0)]\<rparr> 2 = Inl IndexError"
  by (simp add: mandel7_def mandel7_loop.simps mandel7_step_def Let_def gauss_ops_def
      mgrid_def mask_select_def)

section \<open>\<open>Map\<close>: results\<close>

text \<open>
  The requests of a construction: none when \<open>deg2num\<close> raises, since the constructor
  stops before it sends one, and one otherwise.
\<close>

lemma http_log_Map_init:
  "http_log (snd (Map_init ev latitude longitude satellite zoom w)) =
     http_log w @
       (case deg2num (fops ev) latitude longitude zoom of
          Inl e \<Rightarrow> []
        | Inr (x, y) \<Rightarrow> [\<lparr>url = base, params = tile_params x y zoom satellite\<rparr>])"
  by (simp add: Map_init_def Let_def split: sum.splits prod.splits)

lemma deg2num_demo: "deg2num rat_ops 0 0 1 = Inr (1, 1)"
  by (simp add: deg2num_def rat_ops_def exn_bind_def rat_lit_def)


lemma fops_envs:
  "fops demo_env = rat_ops" "fops offline_env = rat_ops" "fops garbled_env = rat_ops"
  by (simp_all add: demo_env_def offline_env_def garbled_env_def)

lemma Map_init_demo:
  "Map_init demo_env 0 0 True 1 w =
     (Inr \<lparr>image_data = [137, 80, 78, 71], pixels = Array3D 3 [[[10, 200, 10]]]\<rparr>,
      w\<lparr>http_log := http_log w @ [\<lparr>url = base, params = tile_params 1 1 1 True\<rparr>]\<rparr>)"
  by (simp add: Map_init_def fops_envs deg2num_demo Let_def) (simp add: demo_env_def)

lemma deg2num_overflow: "deg2num rat_ops 0 0 1024 = Inl OverflowError"
  by (simp add: deg2num_def rat_ops_def exn_bind_def)

text \<open>
  Claim C3 says that every construction of a \<open>Map\<close> sends exactly one request. With
  \<open>zoom = 1024\<close> the power \<^verbatim>\<open>2.0 ** zoom\<close> of \<open>deg2num\<close> raises OverflowError, before
  the request, and the construction sends none.
\<close>

theorem Map_init_no_request_counterexample:
  "Map_init demo_env 0 0 True 1024 world0 = (Inl OverflowError, world0) \<and>
   http_log (snd (Map_init demo_env 0 0 True 1024 world0)) = []"
  by (simp add: Map_init_def fops_envs deg2num_overflow world0_def)

text \<open>
  Claim C3, amended. When \<open>deg2num(latitude, longitude, zoom)\<close> returns the pair
  \<open>(x, y)\<close>, the construction of a \<open>Map\<close> sends exactly one request, to the tile server,
  whatever was sent before; its parameters \<open>x\<close>, \<open>y\<close> and \<open>z\<close> are \<open>x\<close>, \<open>y\<close> and \<open>zoom\<close>; it
  has the parameter \<open>lyrs\<close>, equal to \<^verbatim>\<open>'s'\<close>, if and only if \<open>satellite\<close> is true, and no
  other parameter; and nothing is sent to the geocoder. When \<open>deg2num\<close> raises, the
  construction raises the same exception and sends nothing.
\<close>

theorem Map_init_one_request:
  "(deg2num (fops ev) latitude longitude zoom = Inr (x, y) \<longrightarrow>
      (\<exists>req. http_log (snd (Map_init ev latitude longitude satellite zoom w))
                = http_log w @ [req] \<and>
          url req = base \<and>
          map_of (params req) ''x'' = Some (PInt x) \<and>
          map_of (params req) ''y'' = Some (PInt y) \<and>
          map_of (params req) ''z'' = Some (PInt zoom) \<and>
          (map_of (params req) ''lyrs'' = Some (PStr ''s'')) = satellite \<and>
          (map_of (params req) ''lyrs'' = None) = (\<not> satellite) \<and>
          dom (map_of (params req)) \<subseteq> {''x'', ''y'', ''z'', ''lyrs''}) \<and>
      geocode_log (snd (Map_init ev latitude longitude satellite zoom w)) = geocode_log w) \<and>
   (deg2num (fops ev) latitude longitude zoom = Inl e \<longrightarrow>
      Map_init ev latitude longitude satellite zoom w = (Inl e, w))"
  by (auto simp add: Map_init_def Let_def tile_params_def split: sum.splits prod.splits if_splits)

theorem Map_init_one_request_witness:
  "deg2num (fops demo_env) 0 0 1 = Inr (1, 1) \<and>
   http_log (snd (Map_init demo_env 0 0 True 1 world0)) =
     [\<lparr>url = base,
       params = [(''x'', PInt 1), (''y'', PInt 1), (''z'', PInt 1), (''lyrs'', PStr ''s'')]\<rparr>] \<and>
   http_log (snd (Map_init demo_env 0 0 False 1 world0)) =
     [\<lparr>url = base, params = [(''x'', PInt 1), (''y'', PInt 1), (''z'', PInt 1)]\<rparr>] \<and>
   http_log (snd (Map_init demo_env 0 0 True 1 (snd (Map_init demo_env 0 0 True 1 world0)))) =
     [\<lparr>url = base,
       params = [(''x'', PInt 1), (''y'', PInt 1), (''z'', PInt 1), (''lyrs'', PStr ''s'')]\<rparr>,
      \<lparr>url = base,
       params = [(''x'', PInt 1), (''y'', PInt 1), (''z'', PInt 1), (''lyrs'', PStr ''s'')]\<rparr>] \<and>
   deg2num (fops demo_env) 0 0 1024 = Inl OverflowError \<and>
   Map_init demo_env 0 0 True 1024 world0 = (Inl OverflowError, world0)"
  using Map_init_one_request [of demo_env 0 0 1 1 1 True world0 OverflowError]
    Map_init_one_request [of demo_env 0 0 1 1 1 True "snd (Map_init demo_env 0 0 True 1 world0)"
      OverflowError]
    Map_init_one_request [of demo_env 0 0 1024 1 1 True world0 OverflowError]
  by (simp add: fops_envs deg2num_demo deg2num_overflow Map_init_def Let_def tile_params_def
      world0_def demo_env_def)

text \<open>
  Claim C6. Every \<open>Map\<close> that the constructor returns has as \<open>pixels\<close> the array decoded
  from the bytes of its field \<open>image\<close>, and \<open>deg2num\<close>, \<open>green\<close> and \<open>count_green\<close> leave
  the object as it is.
\<close>

theorem Map_pixels_decoded_from_image:
  assumes "Map_init ev latitude longitude satellite zoom w = (Inr m, w')"
  shows "imread ev (image_data m) = Inr (pixels m) \<and>
         snd (Map_deg2num (fops ev) m la lo z) = m \<and>
         snd (green (fops ev) m threshold) = m \<and>
         snd (count_green (fops ev) m threshold) = m"
  using assms
  by (auto simp add: Map_init_def Let_def Map_deg2num_def green_def count_green_def
      split: sum.splits prod.splits)

theorem Map_pixels_decoded_from_image_witness:
  "Map_init demo_env 0 0 True 1 world0 =
     (Inr \<lparr>image_data = [137, 80, 78, 71], pixels = Array3D 3 [[[10, 200, 10]]]\<rparr>,
      world0\<lparr>http_log := http_log world0 @ [\<lparr>url = base, params = tile_params 1 1 1 True\<rparr>]\<rparr>) \<and>
   imread demo_env [137, 80, 78, 71] = Inr (Array3D 3 [[[10, 200, 10]]]) \<and>
   count_green rat_ops
       \<lparr>image_data = [137, 80, 78, 71], pixels = Array3D 3 [[[10, 200, 10]]]\<rparr> (11 / 10)
     = (Inr 1, \<lparr>image_data = [137, 80, 78, 71], pixels = Array3D 3 [[[10, 200, 10]]]\<rparr>)"
  using Map_pixels_decoded_from_image [OF Map_init_demo [of world0],
      where la = 0 and lo = 0 and z = 1 and threshold = "11 / 10"]
  by (simp add: Map_init_demo fops_envs count_green_def green_def channel_def exn_bind_def
      rat_ops_def)

section \<open>\<open>Greengraph\<close> and \<open>Map\<close>: exceptions\<close>




























end
